theory Spec2Isabelle
  imports Main "HOL-Library.Sublist"
begin

section \<open>The canvas renderer of Text Labs\<close>

text \<open>
  A shallow embedding of the class \<^verbatim>\<open>CanvasRenderer\<close> (latest revision, the one with
  backend auto-positioning). The object's fields become a record that every method
  takes and returns. What the methods do to the world outside the object is kept as
  traces inside the record: the calls of \<^verbatim>\<open>iframe.contentWindow.postMessage\<close> and the
  calls of \<^verbatim>\<open>fetch\<close>. What the world answers (whether the iframe has a content window,
  what \<^verbatim>\<open>fetch\<close> returns, the clock, the browser's HTML parser) is a field of the
  record or an argument of the method.

  The methods \<^verbatim>\<open>updateElementCount\<close>, \<^verbatim>\<open>hidePlaceholder\<close>, \<^verbatim>\<open>updateScale\<close> and the
  console output write to the page and the console only; they never write a field
  modelled here and are left out.
\<close>

subsection \<open>Values, messages, elements\<close>

datatype jsval = Undefined | Null | Bool bool | Num int | Str string

text \<open>A message as \<^verbatim>\<open>sendCommand\<close> builds it: \<^verbatim>\<open>{ action, params, source }\<close>. The
  parameter object is an association list in the order of the object literal.\<close>

record message =
  action :: string
  params :: "(string \<times> jsval) list"
  source :: string

text \<open>A grid position object. Callers pass either the frontend shape
  (\<^verbatim>\<open>gridRow\<close>, \<^verbatim>\<open>gridColumn\<close>) or the backend shape (\<^verbatim>\<open>grid_row\<close>, \<^verbatim>\<open>grid_column\<close>);
  an absent property is \<open>None\<close>.\<close>

record position =
  gridRow :: "string option"
  gridColumn :: "string option"
  grid_row :: "string option"
  grid_column :: "string option"

record element =
  id_el :: string
  type_el :: "string option"
  diagramType :: "string option"
  html :: string
  position :: position

text \<open>One call of \<^verbatim>\<open>postMessage\<close> inside the \<^verbatim>\<open>try\<close> block of \<^verbatim>\<open>sendCommand\<close>:
  it either went through, or it threw and the \<^verbatim>\<open>catch\<close> block logged the error.\<close>

datatype dispatch = Posted message | PostFailed message

record request =
  http_method :: string
  url :: string
  body :: "(string \<times> jsval) list"

datatype promise = Pending | Resolved | Rejected

record renderer =
  elements :: "element list"
  isLoaded :: bool
  pendingMessages :: "message list"
  contentWindow :: bool
  outbox :: "dispatch list"
  requests :: "request list"
  sessionManagerId :: "string option"
  iframeSrc :: string
  timeoutArmed :: bool
  loadPromise :: promise

text \<open>The constructor: no elements, not loaded, empty queue. The two arguments are
  the environment: whether the iframe has a content window to post to, and what
  \<^verbatim>\<open>window.sessionManager?.getSessionId?.()\<close> evaluates to.\<close>

definition constructor :: "bool \<Rightarrow> string option \<Rightarrow> renderer" where
  "constructor cw sid =
     \<lparr>elements = [], isLoaded = False, pendingMessages = [], contentWindow = cw,
      outbox = [], requests = [], sessionManagerId = sid, iframeSrc = [],
      timeoutArmed = False, loadPromise = Pending\<rparr>"

subsection \<open>The command channel\<close>

definition command :: "string \<Rightarrow> (string \<times> jsval) list \<Rightarrow> message" where
  "command a p = \<lparr>action = a, params = p, source = ''text-labs''\<rparr>"

definition postMessage :: "renderer \<Rightarrow> message \<Rightarrow> dispatch" where
  "postMessage r m = (if contentWindow r then Posted m else PostFailed m)"

definition sendCommand :: "renderer \<Rightarrow> string \<Rightarrow> (string \<times> jsval) list \<Rightarrow> renderer" where
  "sendCommand r a p =
     (let message = command a p in
      if \<not> isLoaded r then r\<lparr>pendingMessages := pendingMessages r @ [message]\<rparr>
      else r\<lparr>outbox := outbox r @ [postMessage r message]\<rparr>)"

text \<open>The \<^verbatim>\<open>while\<close> loop of \<^verbatim>\<open>processPendingMessages\<close>. While the renderer is not
  loaded, \<^verbatim>\<open>sendCommand\<close> puts the message it is given back on the queue and the loop
  never ends; the model is therefore a partial function and its termination on a
  loaded renderer is a theorem.\<close>

partial_function (option) processPendingMessages :: "renderer \<Rightarrow> renderer option" where
  "processPendingMessages r =
     (case pendingMessages r of
        [] \<Rightarrow> Some r
      | message # rest \<Rightarrow>
          processPendingMessages
            (sendCommand (r\<lparr>pendingMessages := rest\<rparr>) (action message) (params message)))"

text \<open>The readiness transition: the statements \<^verbatim>\<open>this.isLoaded = true;
  this.processPendingMessages();\<close> of the iframe's \<^verbatim>\<open>onload\<close> handler and of the
  \<^verbatim>\<open>viewerReady\<close> case of the message listener.\<close>

definition markReady :: "renderer \<Rightarrow> renderer option" where
  "markReady r = processPendingMessages (r\<lparr>isLoaded := True\<rparr>)"

text \<open>A sequence of \<^verbatim>\<open>sendCommand\<close> calls, one after the other.\<close>

fun sendAll :: "renderer \<Rightarrow> (string \<times> (string \<times> jsval) list) list \<Rightarrow> renderer" where
  "sendAll r [] = r"
| "sendAll r (c # cs) = sendAll (sendCommand r (fst c) (snd c)) cs"

text \<open>What the loop sends for a queued message: the message built again from its
  action and parameters.\<close>

definition resend :: "message \<Rightarrow> message" where
  "resend m = command (action m) (params m)"

subsection \<open>Loading the viewer\<close>

text \<open>One call of \<^verbatim>\<open>loadPresentation\<close> creates a promise, arms a timer of 5000 ms and
  installs two handlers on the iframe. The three callbacks are modelled one by one;
  \<^verbatim>\<open>resolve\<close> and \<^verbatim>\<open>reject\<close> settle the promise only while it is pending, and a
  timer that was cleared never fires.

  The model covers a single call of \<^verbatim>\<open>loadPresentation\<close> on a renderer whose iframe
  element exists: the record has one promise and one timer. In the code every call
  makes a promise and a timer of its own, so after a second call the timer of the
  first is still armed, and on a renderer without an iframe element the promise is
  rejected by the exception of the assignment to \<^verbatim>\<open>iframe.onload\<close>; neither is
  represented, and nothing below is stated about them.\<close>

definition resolve :: "renderer \<Rightarrow> renderer" where
  "resolve r = (if loadPromise r = Pending then r\<lparr>loadPromise := Resolved\<rparr> else r)"

definition reject :: "renderer \<Rightarrow> renderer" where
  "reject r = (if loadPromise r = Pending then r\<lparr>loadPromise := Rejected\<rparr> else r)"

definition loadPresentation :: "renderer \<Rightarrow> string \<Rightarrow> renderer" where
  "loadPresentation r viewerUrl =
     r\<lparr>loadPromise := Pending, timeoutArmed := True, iframeSrc := viewerUrl\<rparr>"

definition timeout_callback :: "renderer \<Rightarrow> renderer" where
  "timeout_callback r =
     (if timeoutArmed r then resolve (r\<lparr>timeoutArmed := False, isLoaded := True\<rparr>) else r)"

definition iframe_onload :: "renderer \<Rightarrow> renderer option" where
  "iframe_onload r =
     (case markReady (r\<lparr>timeoutArmed := False\<rparr>) of
        None \<Rightarrow> None
      | Some r1 \<Rightarrow> Some (resolve r1))"

definition iframe_onerror :: "renderer \<Rightarrow> renderer" where
  "iframe_onerror r = reject (r\<lparr>timeoutArmed := False\<rparr>)"

subsection \<open>The position service\<close>

text \<open>\<^verbatim>\<open>window.sessionManager?.getSessionId?.() || 'default'\<close>: an undefined or empty
  result gives \<^verbatim>\<open>'default'\<close>.\<close>

definition getSessionId :: "renderer \<Rightarrow> string" where
  "getSessionId r =
     (case sessionManagerId r of
        None \<Rightarrow> ''default''
      | Some s \<Rightarrow> if s = [] then ''default'' else s)"

text \<open>Numbers are modelled as integers (grid sizes, the clock), added exactly and
  printed in decimal by a template literal. The code's numbers are IEEE doubles:
  the model agrees with the code where the operands and the sum are safe integers,
  of absolute value at most \<open>2^53 - 1\<close> (\<^verbatim>\<open>Number.isSafeInteger\<close>), where the double
  addition is exact and the number prints with all its digits. Fractions, \<^verbatim>\<open>NaN\<close>,
  infinities and integers beyond that range have no counterpart here, and the
  theorems about printed numbers are stated for safe integers only.\<close>

definition isSafeInteger :: "int \<Rightarrow> bool" where
  "isSafeInteger n = (\<bar>n\<bar> \<le> 2 ^ 53 - 1)"

definition digit :: "nat \<Rightarrow> char" where
  "digit n = ''0123456789'' ! n"

fun decimal :: "nat \<Rightarrow> string" where
  "decimal n = (if n < 10 then [digit n] else decimal (n div 10) @ [digit (n mod 10)])"

declare decimal.simps [simp del]

definition numberToString :: "int \<Rightarrow> string" where
  "numberToString i = (if i < 0 then CHR ''-'' # decimal (nat (- i)) else decimal (nat i))"

text \<open>What \<^verbatim>\<open>fetch\<close> gives: the promise rejects (network error), or there is a
  response with a status and a body; the body is \<open>None\<close> when \<^verbatim>\<open>response.json()\<close>
  rejects or gives no object to read a property from, and otherwise holds the
  properties \<^verbatim>\<open>grid_row\<close> and \<^verbatim>\<open>grid_column\<close>.\<close>

datatype fetch_result = NetworkError | Response nat "(string option \<times> string option) option"

definition ok :: "nat \<Rightarrow> bool" where
  "ok status = (200 \<le> status \<and> status \<le> 299)"

definition getAutoPosition ::
  "renderer \<Rightarrow> string \<Rightarrow> string \<Rightarrow> int \<Rightarrow> int \<Rightarrow> fetch_result \<Rightarrow> position \<times> renderer" where
  "getAutoPosition r elementId elementType width height response =
     (let sessionId = getSessionId r;
          r1 = r\<lparr>requests := requests r @
                 [\<lparr>http_method = ''POST'', url = ''/api/position/auto'',
                   body = [(''session_id'', Str sessionId), (''element_id'', Str elementId),
                           (''element_type'', Str elementType), (''width'', Num width),
                           (''height'', Num height)]\<rparr>]\<rparr>;
          fallback = \<lparr>gridRow = Some (''4/'' @ numberToString (4 + height)),
                      gridColumn = Some (''2/'' @ numberToString (2 + width)),
                      grid_row = None, grid_column = None\<rparr>
      in case response of
           NetworkError \<Rightarrow> (fallback, r1)
         | Response status json \<Rightarrow>
             if \<not> ok status then (fallback, r1)
             else (case json of
                     None \<Rightarrow> (fallback, r1)
                   | Some data \<Rightarrow>
                       (\<lparr>gridRow = fst data, gridColumn = snd data,
                         grid_row = None, grid_column = None\<rparr>, r1)))"

definition notifyElementRemoved :: "renderer \<Rightarrow> string \<Rightarrow> renderer" where
  "notifyElementRemoved r elementId =
     (let sessionId = getSessionId r
      in r\<lparr>requests := requests r @
             [\<lparr>http_method = ''DELETE'',
               url = ''/api/position/'' @ sessionId @ ''/elements/'' @ elementId,
               body = []\<rparr>]\<rparr>)"

subsection \<open>Unwrapping an HTML document\<close>

text \<open>The browser's \<^verbatim>\<open>DOMParser\<close> is an argument: for the text of a document it gives
  the \<^verbatim>\<open>outerHTML\<close> of the script elements of the head, in document order, and the
  \<^verbatim>\<open>innerHTML\<close> of the body.\<close>

record document =
  headScripts :: "string list"
  bodyInnerHTML :: string

definition includes_str :: "string \<Rightarrow> string \<Rightarrow> bool" where
  "includes_str s t = sublist t s"

definition newline :: string where
  "newline = [CHR 0x0A]"

fun join :: "string \<Rightarrow> string list \<Rightarrow> string" where
  "join sep [] = []"
| "join sep [x] = x"
| "join sep (x # y # ys) = x @ sep @ join sep (y # ys)"

definition extractBodyContent :: "(string \<Rightarrow> document) \<Rightarrow> string \<Rightarrow> string" where
  "extractBodyContent parseFromString h =
     (if includes_str h ''<!DOCTYPE'' \<or> includes_str h ''<html'' then
        let doc = parseFromString h;
            bodyContent = bodyInnerHTML doc;
            scriptTags = join newline (headScripts doc)
        in scriptTags @ newline @ bodyContent
      else h)"

subsection \<open>The element registry\<close>

text \<open>The operator \<^verbatim>\<open>||\<close> on an optional string and on an optional number: undefined,
  the empty string and zero are falsy.\<close>

definition or_string :: "string option \<Rightarrow> string \<Rightarrow> string" where
  "or_string v d = (case v of None \<Rightarrow> d | Some s \<Rightarrow> if s = [] then d else s)"

definition or_number :: "int option \<Rightarrow> int \<Rightarrow> int" where
  "or_number v d = (case v of None \<Rightarrow> d | Some n \<Rightarrow> if n = 0 then d else n)"

definition js_string :: "string option \<Rightarrow> jsval" where
  "js_string v = (case v of None \<Rightarrow> Undefined | Some s \<Rightarrow> Str s)"

definition js_number :: "int option \<Rightarrow> jsval" where
  "js_number v = (case v of None \<Rightarrow> Undefined | Some n \<Rightarrow> Num n)"

text \<open>The \<^verbatim>\<open>options\<close> argument of the insert methods; \<open>opt_useAutoPosition\<close> is the
  value of \<^verbatim>\<open>options.useAutoPosition === true\<close>.\<close>

record options =
  opt_elementId :: "string option"
  opt_useAutoPosition :: bool
  opt_positionWidth :: "int option"
  opt_positionHeight :: "int option"
  opt_elementType :: "string option"
  opt_diagramType :: "string option"

definition track :: "renderer \<Rightarrow> element \<Rightarrow> renderer" where
  "track r e = r\<lparr>elements := elements r @ [e]\<rparr>"

text \<open>The insert methods take the clock (\<^verbatim>\<open>Date.now()\<close>) and the outcome of the
  position request, should they ask for either. In \<^verbatim>\<open>insertElement\<close> the test
  \<^verbatim>\<open>options.positionWidth && options.positionHeight\<close> holds when both are defined and
  not zero, which is when \<open>or_number v 0\<close> is the value itself and not zero.\<close>

definition insertElement ::
  "renderer \<Rightarrow> string \<Rightarrow> position option \<Rightarrow> options \<Rightarrow> int \<Rightarrow> fetch_result \<Rightarrow> string \<times> renderer" where
  "insertElement r h pos opts now response =
     (let defaultPosition = \<lparr>gridRow = Some ''4/18'', gridColumn = Some ''2/32'',
                              grid_row = None, grid_column = None\<rparr>;
          elementId = or_string (opt_elementId opts) (''el_'' @ numberToString now);
          useAutoPosition = opt_useAutoPosition opts;
          (finalPosition, r1) =
            (if useAutoPosition \<and> or_number (opt_positionWidth opts) 0 \<noteq> 0
                \<and> or_number (opt_positionHeight opts) 0 \<noteq> 0
             then
               let (autoPos, r1) =
                     getAutoPosition r elementId (or_string (opt_elementType opts) ''TEXT_BOX'')
                       (or_number (opt_positionWidth opts) 0)
                       (or_number (opt_positionHeight opts) 0) response
               in (\<lparr>gridRow = gridRow autoPos, gridColumn = gridColumn autoPos,
                    grid_row = None, grid_column = None\<rparr>, r1)
             else (case pos of None \<Rightarrow> defaultPosition | Some p \<Rightarrow> p, r));
          r2 = sendCommand r1 ''insertTextBox''
                 [(''elementId'', Str elementId),
                  (''slideIndex'', Num 0),
                  (''content'', Str h),
                  (''gridRow'', js_string (gridRow finalPosition)),
                  (''gridColumn'', js_string (gridColumn finalPosition)),
                  (''positionWidth'', js_number (opt_positionWidth opts)),
                  (''positionHeight'', js_number (opt_positionHeight opts)),
                  (''skipAutoSize'', Bool True),
                  (''draggable'', Bool True),
                  (''resizable'', Bool True)]
      in (elementId,
          track r2 \<lparr>id_el = elementId, type_el = None, diagramType = None, html = h,
                    position = finalPosition\<rparr>))"

definition insertChart ::
  "(string \<Rightarrow> document) \<Rightarrow> renderer \<Rightarrow> string \<Rightarrow> position option \<Rightarrow> string option \<Rightarrow> options
     \<Rightarrow> int \<Rightarrow> fetch_result \<Rightarrow> string \<times> renderer" where
  "insertChart parseFromString r h pos elementId opts now response =
     (let defaultPosition = \<lparr>gridRow = Some ''4/16'', gridColumn = Some ''2/18'',
                              grid_row = None, grid_column = None\<rparr>;
          ident = or_string elementId (''chart_'' @ numberToString now);
          cleanHtml = extractBodyContent parseFromString h;
          useAutoPosition = opt_useAutoPosition opts;
          width = or_number (opt_positionWidth opts) 14;
          height = or_number (opt_positionHeight opts) 10;
          (finalPosition, r1) =
            (if useAutoPosition then
               let (autoPos, r1) = getAutoPosition r ident ''CHART'' width height response
               in (\<lparr>gridRow = gridRow autoPos, gridColumn = gridColumn autoPos,
                    grid_row = None, grid_column = None\<rparr>, r1)
             else (case pos of None \<Rightarrow> defaultPosition | Some p \<Rightarrow> p, r));
          r2 = sendCommand r1 ''insertChart''
                 [(''id'', Str ident),
                  (''slideIndex'', Num 0),
                  (''chartHtml'', Str cleanHtml),
                  (''gridRow'', js_string (gridRow finalPosition)),
                  (''gridColumn'', js_string (gridColumn finalPosition)),
                  (''positionWidth'', Num width),
                  (''positionHeight'', Num height),
                  (''draggable'', Bool True),
                  (''resizable'', Bool True)]
      in (ident,
          track r2 \<lparr>id_el = ident, type_el = Some ''chart'', diagramType = None, html = h,
                    position = finalPosition\<rparr>))"

text \<open>\<^verbatim>\<open>position?.grid_row || position?.gridRow || defaultPosition.gridRow\<close>, and the
  same for the column: the backend shape wins.\<close>

definition convertPosition :: "position option \<Rightarrow> string \<Rightarrow> string \<Rightarrow> position" where
  "convertPosition pos defaultRow defaultColumn =
     \<lparr>gridRow = Some (case pos of
                        None \<Rightarrow> defaultRow
                      | Some p \<Rightarrow> or_string (grid_row p) (or_string (gridRow p) defaultRow)),
      gridColumn = Some (case pos of
                        None \<Rightarrow> defaultColumn
                      | Some p \<Rightarrow> or_string (grid_column p) (or_string (gridColumn p) defaultColumn)),
      grid_row = None, grid_column = None\<rparr>"

definition insertImage ::
  "renderer \<Rightarrow> string \<Rightarrow> position option \<Rightarrow> string option \<Rightarrow> options
     \<Rightarrow> int \<Rightarrow> fetch_result \<Rightarrow> string \<times> renderer" where
  "insertImage r h pos elementId opts now response =
     (let ident = or_string elementId (''img_'' @ numberToString now);
          useAutoPosition = opt_useAutoPosition opts;
          width = or_number (opt_positionWidth opts) 14;
          height = or_number (opt_positionHeight opts) 10;
          (finalPosition, r1) =
            (if useAutoPosition then
               let (autoPos, r1) = getAutoPosition r ident ''IMAGE'' width height response
               in (\<lparr>gridRow = gridRow autoPos, gridColumn = gridColumn autoPos,
                    grid_row = None, grid_column = None\<rparr>, r1)
             else (convertPosition pos ''4/18'' ''2/32'', r));
          r2 = sendCommand r1 ''insertImage''
                 [(''id'', Str ident),
                  (''slideIndex'', Num 0),
                  (''imageUrl'', Null),
                  (''imageHtml'', Str h),
                  (''gridRow'', js_string (gridRow finalPosition)),
                  (''gridColumn'', js_string (gridColumn finalPosition)),
                  (''positionWidth'', Num width),
                  (''positionHeight'', Num height),
                  (''skipAutoSize'', Bool True),
                  (''draggable'', Bool True),
                  (''resizable'', Bool True)]
      in (ident,
          track r2 \<lparr>id_el = ident, type_el = Some ''image'', diagramType = None, html = h,
                    position = finalPosition\<rparr>))"

definition insertDiagram ::
  "(string \<Rightarrow> document) \<Rightarrow> renderer \<Rightarrow> string \<Rightarrow> position option \<Rightarrow> string option \<Rightarrow> options
     \<Rightarrow> int \<Rightarrow> fetch_result \<Rightarrow> string \<times> renderer" where
  "insertDiagram parseFromString r h pos elementId opts now response =
     (let ident = or_string elementId (''diagram_'' @ numberToString now);
          cleanHtml = extractBodyContent parseFromString h;
          useAutoPosition = opt_useAutoPosition opts;
          width = or_number (opt_positionWidth opts) 30;
          height = or_number (opt_positionHeight opts) 14;
          dtype = or_string (opt_diagramType opts) ''DIAGRAM'';
          (finalPosition, r1) =
            (if useAutoPosition then
               let (autoPos, r1) = getAutoPosition r ident dtype width height response
               in (\<lparr>gridRow = gridRow autoPos, gridColumn = gridColumn autoPos,
                    grid_row = None, grid_column = None\<rparr>, r1)
             else (convertPosition pos ''4/18'' ''2/32'', r));
          r2 = sendCommand r1 ''insertDiagram''
                 [(''id'', Str ident),
                  (''slideIndex'', Num 0),
                  (''diagramHtml'', Str cleanHtml),
                  (''gridRow'', js_string (gridRow finalPosition)),
                  (''gridColumn'', js_string (gridColumn finalPosition)),
                  (''positionWidth'', Num width),
                  (''positionHeight'', Num height),
                  (''draggable'', Bool True),
                  (''resizable'', Bool True)];
          r3 = sendCommand r2 ''reloadPresentation'' []
      in (ident,
          track r3 \<lparr>id_el = ident, type_el = Some ''diagram'', diagramType = Some dtype,
                    html = h, position = finalPosition\<rparr>))"

text \<open>The first revision of \<^verbatim>\<open>insertElement\<close>, before auto-positioning: it takes the
  text and the position only, and sets \<^verbatim>\<open>skipAutoSize: !!position\<close>.\<close>

definition insertElement_rev0 ::
  "renderer \<Rightarrow> string \<Rightarrow> position option \<Rightarrow> int \<Rightarrow> string \<times> renderer" where
  "insertElement_rev0 r h pos now =
     (let defaultPosition = \<lparr>gridRow = Some ''4/18'', gridColumn = Some ''2/32'',
                              grid_row = None, grid_column = None\<rparr>;
          elementId = ''el_'' @ numberToString now;
          r1 = sendCommand r ''insertTextBox''
                 [(''elementId'', Str elementId),
                  (''slideIndex'', Num 0),
                  (''content'', Str h),
                  (''gridRow'', Str (case pos of
                                      None \<Rightarrow> ''4/18''
                                    | Some p \<Rightarrow> or_string (gridRow p) ''4/18'')),
                  (''gridColumn'', Str (case pos of
                                      None \<Rightarrow> ''2/32''
                                    | Some p \<Rightarrow> or_string (gridColumn p) ''2/32'')),
                  (''skipAutoSize'', Bool (pos \<noteq> None)),
                  (''draggable'', Bool True),
                  (''resizable'', Bool True)]
      in (elementId,
          track r1 \<lparr>id_el = elementId, type_el = None, diagramType = None, html = h,
                    position = (case pos of None \<Rightarrow> defaultPosition | Some p \<Rightarrow> p)\<rparr>))"

text \<open>\<^verbatim>\<open>element.html = html\<close> on the first element that \<^verbatim>\<open>find\<close> returns.\<close>

fun assign_html :: "string \<Rightarrow> string \<Rightarrow> element list \<Rightarrow> element list" where
  "assign_html elementId h [] = []"
| "assign_html elementId h (e # es) =
     (if id_el e = elementId then e\<lparr>html := h\<rparr> # es else e # assign_html elementId h es)"

definition updateElementContent :: "renderer \<Rightarrow> string \<Rightarrow> string \<Rightarrow> renderer" where
  "updateElementContent r elementId h =
     (let r1 = sendCommand r ''updateTextBoxContent''
                 [(''elementId'', Str elementId), (''content'', Str h)]
      in case find (\<lambda>e. id_el e = elementId) (elements r1) of
           None \<Rightarrow> r1
         | Some element \<Rightarrow> r1\<lparr>elements := assign_html elementId h (elements r1)\<rparr>)"

definition deleteElement :: "renderer \<Rightarrow> string \<Rightarrow> renderer" where
  "deleteElement r elementId =
     (let r1 = sendCommand r ''deleteElement'' [(''elementId'', Str elementId)];
          r2 = r1\<lparr>elements := filter (\<lambda>e. id_el e \<noteq> elementId) (elements r1)\<rparr>
      in notifyElementRemoved r2 elementId)"

definition clearElements :: "renderer \<Rightarrow> renderer" where
  "clearElements r =
     (let r1 = foldl (\<lambda>r e. sendCommand r ''deleteElement'' [(''elementId'', Str (id_el e))])
                 r (elements r);
          r2 = r1\<lparr>elements := []\<rparr>;
          sessionId = getSessionId r2;
          r3 = r2\<lparr>requests := requests r2 @
                 [\<lparr>http_method = ''DELETE'', url = ''/api/position/'' @ sessionId @ ''/clear'',
                   body = []\<rparr>]\<rparr>
      in sendCommand r3 ''reloadPresentation'' [])"


definition getElements :: "renderer \<Rightarrow> element list" where
  "getElements r = elements r"

subsection \<open>The message listener\<close>

text \<open>The \<^verbatim>\<open>data\<close> of a message event: \<open>None\<close> when it is falsy, otherwise its
  properties (undefined when absent).\<close>

record event_data =
  ev_source :: jsval
  ev_action :: jsval
  ev_success :: jsval
  ev_elementId :: jsval
  ev_error :: jsval
  ev_position :: jsval

definition onMessage :: "renderer \<Rightarrow> event_data option \<Rightarrow> renderer option" where
  "onMessage r data =
     (case data of
        None \<Rightarrow> Some r
      | Some d \<Rightarrow>
          if ev_source d = Str ''text-labs'' then Some r
          else if ev_action d = Str ''insertTextBox'' then Some r
          else if ev_action d = Str ''insertChart'' then Some r
          else if ev_action d = Str ''deleteElement'' then Some r
          else if ev_action d = Str ''elementSelected'' then Some r
          else if ev_action d = Str ''elementMoved'' then Some r
          else if ev_action d = Str ''viewerReady'' then markReady r
          else Some r)"

text \<open>What a method handed to the channel: on a loaded renderer the messages were
  given to \<^verbatim>\<open>postMessage\<close>, otherwise they were put at the end of the queue.\<close>

definition sent :: "renderer \<Rightarrow> renderer \<Rightarrow> message list \<Rightarrow> bool" where
  "sent r r' ms =
     (isLoaded r' = isLoaded r \<and>
      (if isLoaded r
       then outbox r' = outbox r @ map (postMessage r) ms \<and> pendingMessages r' = pendingMessages r
       else pendingMessages r' = pendingMessages r @ ms \<and> outbox r' = outbox r))"

section \<open>Queueing and the readiness transition\<close>

lemma sendCommand_queued:
  "\<not> isLoaded r \<Longrightarrow>
     sendCommand r a p = r\<lparr>pendingMessages := pendingMessages r @ [command a p]\<rparr>"
  by (simp add: sendCommand_def)

lemma sendCommand_loaded:
  "isLoaded r \<Longrightarrow>
     sendCommand r a p = r\<lparr>outbox := outbox r @ [postMessage r (command a p)]\<rparr>"
  by (simp add: sendCommand_def)

lemma resend_command: "resend (command a p) = command a p"
  by (simp add: resend_def command_def)

lemma sendAll_queued:
  "\<not> isLoaded r \<Longrightarrow>
     sendAll r cs =
       r\<lparr>pendingMessages := pendingMessages r @ map (\<lambda>c. command (fst c) (snd c)) cs\<rparr>"
proof (induction cs arbitrary: r)
  case Nil
  then show ?case by simp
next
  case (Cons c cs)
  have "\<not> isLoaded (sendCommand r (fst c) (snd c))"
    using Cons.prems by (simp add: sendCommand_queued)
  from Cons.IH [OF this] show ?case
    using Cons.prems by (simp add: sendCommand_queued)
qed

lemma processPendingMessages_loaded:
  "isLoaded r \<Longrightarrow>
     processPendingMessages r =
       Some (r\<lparr>pendingMessages := [],
               outbox := outbox r @ map (\<lambda>m. postMessage r (resend m)) (pendingMessages r)\<rparr>)"
proof (induction "pendingMessages r" arbitrary: r)
  case Nil
  then show ?case
    by (subst processPendingMessages.simps) simp
next
  case (Cons m ms)
  let ?r1 = "sendCommand (r\<lparr>pendingMessages := ms\<rparr>) (action m) (params m)"
  have r1: "?r1 = r\<lparr>pendingMessages := ms, outbox := outbox r @ [postMessage r (resend m)]\<rparr>"
    using Cons.prems by (simp add: sendCommand_def resend_def postMessage_def)
  have "ms = pendingMessages ?r1" and "isLoaded ?r1"
    using Cons.prems by (simp_all add: r1)
  from Cons.hyps(1) [OF this]
  have "processPendingMessages ?r1 =
          Some (?r1\<lparr>pendingMessages := [],
                    outbox := outbox ?r1 @ map (\<lambda>m. postMessage ?r1 (resend m)) (pendingMessages ?r1)\<rparr>)" .
  moreover have "processPendingMessages r = processPendingMessages ?r1"
    using Cons.hyps(2) [symmetric] by (subst processPendingMessages.simps) simp
  ultimately show ?case
    using Cons.hyps(2) [symmetric] by (simp add: r1 postMessage_def)
qed

lemma markReady_eq:
  "markReady r =
     Some (r\<lparr>isLoaded := True, pendingMessages := [],
             outbox := outbox r @ map (\<lambda>m. postMessage r (resend m)) (pendingMessages r)\<rparr>)"
  by (simp add: markReady_def processPendingMessages_loaded postMessage_def)

text \<open>
  Claim C1. While the renderer is not loaded, each \<^verbatim>\<open>sendCommand\<close> call appends
  exactly one message to the pending queue and changes nothing else, so it posts
  nothing; a sequence of calls leaves the queue extended by exactly the commands
  sent, in call order. The readiness transition then hands every queued message to
  \<^verbatim>\<open>postMessage\<close> exactly once, in queue order, after what was posted before, and
  leaves the queue empty.
\<close>

theorem queued_commands_replayed_in_order:
  assumes "\<not> isLoaded r"
  shows "sendCommand r a p = r\<lparr>pendingMessages := pendingMessages r @ [command a p]\<rparr>
       \<and> sendAll r cs =
           r\<lparr>pendingMessages := pendingMessages r @ map (\<lambda>c. command (fst c) (snd c)) cs\<rparr>
       \<and> markReady (sendAll r cs) =
           Some (r\<lparr>isLoaded := True, pendingMessages := [],
                   outbox := outbox r @
                     map (postMessage r)
                       (map resend (pendingMessages r) @
                        map (\<lambda>c. command (fst c) (snd c)) cs)\<rparr>)"
proof -
  have one: "sendCommand r a p = r\<lparr>pendingMessages := pendingMessages r @ [command a p]\<rparr>"
    using assms by (rule sendCommand_queued)
  have all: "sendAll r cs =
      r\<lparr>pendingMessages := pendingMessages r @ map (\<lambda>c. command (fst c) (snd c)) cs\<rparr>"
    using assms by (rule sendAll_queued)
  have "markReady (sendAll r cs) =
      Some (r\<lparr>isLoaded := True, pendingMessages := [],
              outbox := outbox r @
                map (postMessage r)
                  (map resend (pendingMessages r) @
                   map (\<lambda>c. command (fst c) (snd c)) cs)\<rparr>)"
    by (simp add: all markReady_eq postMessage_def resend_command o_def)
  with one all show ?thesis by blast
qed

theorem queued_commands_replayed_in_order_witness:
  "\<not> isLoaded (constructor True None)
   \<and> markReady (sendAll (constructor True None)
        [(''insertTextBox'', [(''elementId'', Str ''a'')]),
         (''deleteElement'', [(''elementId'', Str ''a'')])]) =
     Some ((constructor True None)
       \<lparr>isLoaded := True, pendingMessages := [],
        outbox :=
          [Posted \<lparr>action = ''insertTextBox'', params = [(''elementId'', Str ''a'')],
                   source = ''text-labs''\<rparr>,
           Posted \<lparr>action = ''deleteElement'', params = [(''elementId'', Str ''a'')],
                   source = ''text-labs''\<rparr>]\<rparr>)"
proof -
  have h: "\<not> isLoaded (constructor True None)"
    by (simp add: constructor_def)
  show ?thesis
    using h queued_commands_replayed_in_order [OF h,
        of "[]" "[]" "[(''insertTextBox'', [(''elementId'', Str ''a'')]),
                       (''deleteElement'', [(''elementId'', Str ''a'')])]"]
    by (simp add: constructor_def postMessage_def command_def sendCommand_def)
qed

text \<open>
  Claim C7. The readiness transition always returns, and running it again on the
  renderer it returned gives that same renderer back: nothing is posted a second
  time.
\<close>

theorem second_markReady_posts_nothing:
  "\<exists>r1. markReady r = Some r1 \<and> markReady r1 = Some r1 \<and> outbox r1 =
      outbox r @ map (\<lambda>m. postMessage r (resend m)) (pendingMessages r)"
  by (simp add: markReady_eq)

section \<open>Removing and updating elements\<close>

lemma sendCommand_frame [simp]:
  "elements (sendCommand r a p) = elements r"
  "requests (sendCommand r a p) = requests r"
  "isLoaded (sendCommand r a p) = isLoaded r"
  "contentWindow (sendCommand r a p) = contentWindow r"
  "sessionManagerId (sendCommand r a p) = sessionManagerId r"
  by (simp_all add: sendCommand_def Let_def)

lemma getSessionId_sendCommand [simp]: "getSessionId (sendCommand r a p) = getSessionId r"
  by (simp add: getSessionId_def)

lemma sent_sendCommand: "sent r (sendCommand r a p) [command a p]"
  by (simp add: sent_def sendCommand_def Let_def)

lemma deleteElement_elements:
  "elements (deleteElement r elementId) = filter (\<lambda>e. id_el e \<noteq> elementId) (elements r)"
  by (simp add: deleteElement_def notifyElementRemoved_def Let_def)

lemma deleteElement_sent:
  "sent r (deleteElement r elementId) [command ''deleteElement'' [(''elementId'', Str elementId)]]"
  using sent_sendCommand [of r "''deleteElement''" "[(''elementId'', Str elementId)]"]
  by (simp add: sent_def deleteElement_def notifyElementRemoved_def Let_def)

lemma deleteElement_requests:
  "requests (deleteElement r elementId) =
     requests r @ [\<lparr>http_method = ''DELETE'',
                    url = ''/api/position/'' @ getSessionId r @ ''/elements/'' @ elementId,
                    body = []\<rparr>]"
  by (simp add: deleteElement_def notifyElementRemoved_def Let_def getSessionId_def)



text \<open>
  Claim C10. When no element with the given id is tracked, \<^verbatim>\<open>deleteElement\<close> leaves
  the element list as it was, and still hands one \<^verbatim>\<open>deleteElement\<close> command to the
  channel and issues the \<^verbatim>\<open>DELETE\<close> request. Deleting the same id a second time
  gives the same element list as deleting it once, whether it was tracked or not.
\<close>

theorem deleteElement_absent_idempotent:
  assumes "elementId \<notin> id_el ` set (getElements r)"
  shows "getElements (deleteElement r elementId) = getElements r
       \<and> sent r (deleteElement r elementId)
           [command ''deleteElement'' [(''elementId'', Str elementId)]]
       \<and> requests (deleteElement r elementId) =
           requests r @ [\<lparr>http_method = ''DELETE'',
                          url = ''/api/position/'' @ getSessionId r @ ''/elements/'' @ elementId,
                          body = []\<rparr>]
       \<and> (\<forall>r0. getElements (deleteElement (deleteElement r0 elementId) elementId) =
                 getElements (deleteElement r0 elementId))"
proof -
  have "\<forall>e \<in> set (elements r). id_el e \<noteq> elementId"
    using assms by (auto simp: getElements_def)
  then have "filter (\<lambda>e. id_el e \<noteq> elementId) (elements r) = elements r"
    by (simp add: filter_id_conv)
  then have same: "getElements (deleteElement r elementId) = getElements r"
    by (simp add: getElements_def deleteElement_elements)
  have twice: "\<forall>r0. getElements (deleteElement (deleteElement r0 elementId) elementId) =
      getElements (deleteElement r0 elementId)"
    by (simp add: getElements_def deleteElement_elements)
  from same twice deleteElement_sent deleteElement_requests show ?thesis
    by blast
qed

theorem deleteElement_absent_idempotent_witness:
  "''b'' \<notin> id_el ` set (getElements ((constructor False None)
      \<lparr>elements := [\<lparr>id_el = ''a'', type_el = None, diagramType = None, html = ''x'',
                      position = \<lparr>gridRow = None, gridColumn = None, grid_row = None,
                                  grid_column = None\<rparr>\<rparr>]\<rparr>))
   \<and> getElements (deleteElement ((constructor False None)
      \<lparr>elements := [\<lparr>id_el = ''a'', type_el = None, diagramType = None, html = ''x'',
                      position = \<lparr>gridRow = None, gridColumn = None, grid_row = None,
                                  grid_column = None\<rparr>\<rparr>]\<rparr>) ''b'') =
       [\<lparr>id_el = ''a'', type_el = None, diagramType = None, html = ''x'',
         position = \<lparr>gridRow = None, gridColumn = None, grid_row = None,
                     grid_column = None\<rparr>\<rparr>]
   \<and> pendingMessages (deleteElement ((constructor False None)
      \<lparr>elements := [\<lparr>id_el = ''a'', type_el = None, diagramType = None, html = ''x'',
                      position = \<lparr>gridRow = None, gridColumn = None, grid_row = None,
                                  grid_column = None\<rparr>\<rparr>]\<rparr>) ''b'') =
       [\<lparr>action = ''deleteElement'', params = [(''elementId'', Str ''b'')],
         source = ''text-labs''\<rparr>]"
proof -
  let ?r = "(constructor False None)
      \<lparr>elements := [\<lparr>id_el = ''a'', type_el = None, diagramType = None, html = ''x'',
                      position = \<lparr>gridRow = None, gridColumn = None, grid_row = None,
                                  grid_column = None\<rparr>\<rparr>]\<rparr>"
  have h: "''b'' \<notin> id_el ` set (getElements ?r)"
    by (simp add: getElements_def constructor_def)
  show ?thesis
    using h deleteElement_absent_idempotent [OF h]
    by (simp add: getElements_def constructor_def sent_def command_def)
qed

lemma updateElementContent_sent:
  "sent r (updateElementContent r elementId h)
     [command ''updateTextBoxContent'' [(''elementId'', Str elementId), (''content'', Str h)]]"
  using sent_sendCommand [of r "''updateTextBoxContent''"
      "[(''elementId'', Str elementId), (''content'', Str h)]"]
  by (simp add: sent_def updateElementContent_def Let_def split: option.split)

lemma updateElementContent_requests:
  "requests (updateElementContent r elementId h) = requests r"
  by (simp add: updateElementContent_def Let_def split: option.split)

lemma updateElementContent_absent:
  assumes "elementId \<notin> id_el ` set (elements r)"
  shows "elements (updateElementContent r elementId h) = elements r"
proof -
  have "find (\<lambda>e. id_el e = elementId) (elements r) = None"
    using assms by (auto simp: find_None_iff)
  then show ?thesis
    by (simp add: updateElementContent_def Let_def)
qed

text \<open>
  Claim C8. \<^verbatim>\<open>updateElementContent\<close> hands exactly one \<^verbatim>\<open>updateTextBoxContent\<close>
  command with the id and the content to the channel, whether or not the id is
  tracked, and issues no request; when the id is not tracked the element list is
  left as it was.
\<close>

theorem updateElementContent_sends_without_gate:
  "sent r (updateElementContent r elementId h)
     [command ''updateTextBoxContent'' [(''elementId'', Str elementId), (''content'', Str h)]]
   \<and> requests (updateElementContent r elementId h) = requests r
   \<and> (elementId \<notin> id_el ` set (getElements r) \<longrightarrow>
        getElements (updateElementContent r elementId h) = getElements r)"
  using updateElementContent_sent [of r elementId h]
    updateElementContent_requests [of r elementId h]
    updateElementContent_absent [of elementId r h]
  by (simp add: getElements_def)

theorem updateElementContent_sends_without_gate_witness:
  "''b'' \<notin> id_el ` set (getElements ((constructor True None)
      \<lparr>isLoaded := True,
       elements := [\<lparr>id_el = ''a'', type_el = None, diagramType = None, html = ''x'',
                      position = \<lparr>gridRow = None, gridColumn = None, grid_row = None,
                                  grid_column = None\<rparr>\<rparr>]\<rparr>))
   \<and> getElements (updateElementContent ((constructor True None)
      \<lparr>isLoaded := True,
       elements := [\<lparr>id_el = ''a'', type_el = None, diagramType = None, html = ''x'',
                      position = \<lparr>gridRow = None, gridColumn = None, grid_row = None,
                                  grid_column = None\<rparr>\<rparr>]\<rparr>) ''b'' ''y'') =
       [\<lparr>id_el = ''a'', type_el = None, diagramType = None, html = ''x'',
         position = \<lparr>gridRow = None, gridColumn = None, grid_row = None,
                     grid_column = None\<rparr>\<rparr>]
   \<and> outbox (updateElementContent ((constructor True None)
      \<lparr>isLoaded := True,
       elements := [\<lparr>id_el = ''a'', type_el = None, diagramType = None, html = ''x'',
                      position = \<lparr>gridRow = None, gridColumn = None, grid_row = None,
                                  grid_column = None\<rparr>\<rparr>]\<rparr>) ''b'' ''y'') =
       [Posted \<lparr>action = ''updateTextBoxContent'',
                params = [(''elementId'', Str ''b''), (''content'', Str ''y'')],
                source = ''text-labs''\<rparr>]"
  using updateElementContent_sends_without_gate [of "(constructor True None)
      \<lparr>isLoaded := True,
       elements := [\<lparr>id_el = ''a'', type_el = None, diagramType = None, html = ''x'',
                      position = \<lparr>gridRow = None, gridColumn = None, grid_row = None,
                                  grid_column = None\<rparr>\<rparr>]\<rparr>" "''b''" "''y''"]
  by (simp add: getElements_def constructor_def sent_def command_def postMessage_def)

section \<open>The fallback position\<close>

lemma numberToString_10: "numberToString 10 = ''10''"
  by (simp add: numberToString_def decimal.simps digit_def)

lemma numberToString_12: "numberToString 12 = ''12''"
  by (simp add: numberToString_def decimal.simps digit_def)

lemma getAutoPosition_NetworkError:
  "fst (getAutoPosition r elementId elementType width height NetworkError) =
     \<lparr>gridRow = Some (''4/'' @ numberToString (4 + height)),
      gridColumn = Some (''2/'' @ numberToString (2 + width)),
      grid_row = None, grid_column = None\<rparr>"
  by (simp add: getAutoPosition_def Let_def)

lemma getAutoPosition_not_ok:
  "\<not> ok status \<Longrightarrow>
   fst (getAutoPosition r elementId elementType width height (Response status json)) =
     \<lparr>gridRow = Some (''4/'' @ numberToString (4 + height)),
      gridColumn = Some (''2/'' @ numberToString (2 + width)),
      grid_row = None, grid_column = None\<rparr>"
  by (simp add: getAutoPosition_def Let_def)

text \<open>
  Claim C2. When the position request fails, by a network error or by a response
  whose status is not in 200..299, \<^verbatim>\<open>getAutoPosition\<close> returns the position with row
  \<open>4/(4 + height)\<close> and column \<open>2/(2 + width)\<close>, whatever the element id and type,
  for every width and height that are safe integers with safe sums \<open>2 + width\<close> and
  \<open>4 + height\<close> (the range in which the integers of the model are the doubles of
  the code); for width 10 and height 6 this is row \<open>4/10\<close> and column \<open>2/12\<close>. The
  method has no failing result: every exception inside it is caught.
\<close>

theorem getAutoPosition_fallback:
  assumes "response = NetworkError
         \<or> (\<exists>status json. response = Response status json \<and> \<not> ok status)"
    and "isSafeInteger width" and "isSafeInteger height"
    and "isSafeInteger (2 + width)" and "isSafeInteger (4 + height)"
  shows "fst (getAutoPosition r elementId elementType width height response) =
           \<lparr>gridRow = Some (''4/'' @ numberToString (4 + height)),
            gridColumn = Some (''2/'' @ numberToString (2 + width)),
            grid_row = None, grid_column = None\<rparr>
       \<and> fst (getAutoPosition r elementId elementType 10 6 response) =
           \<lparr>gridRow = Some ''4/10'', gridColumn = Some ''2/12'',
            grid_row = None, grid_column = None\<rparr>"
proof -
  have general: "fst (getAutoPosition r elementId elementType w ht response) =
      \<lparr>gridRow = Some (''4/'' @ numberToString (4 + ht)),
       gridColumn = Some (''2/'' @ numberToString (2 + w)),
       grid_row = None, grid_column = None\<rparr>" for w ht
    using assms(1) getAutoPosition_NetworkError getAutoPosition_not_ok by blast
  have "fst (getAutoPosition r elementId elementType 10 6 response) =
      \<lparr>gridRow = Some ''4/10'', gridColumn = Some ''2/12'',
       grid_row = None, grid_column = None\<rparr>"
    by (simp add: general numberToString_10 numberToString_12)
  with general show ?thesis by blast
qed

theorem getAutoPosition_fallback_witness:
  "(Response 503 None = NetworkError
      \<or> (\<exists>status json. Response 503 None = Response status json \<and> \<not> ok status))
   \<and> isSafeInteger 10 \<and> isSafeInteger 6 \<and> isSafeInteger (2 + 10) \<and> isSafeInteger (4 + 6)
   \<and> fst (getAutoPosition (constructor True None) ''chart_1'' ''CHART'' 10 6 (Response 503 None)) =
       \<lparr>gridRow = Some ''4/10'', gridColumn = Some ''2/12'',
        grid_row = None, grid_column = None\<rparr>"
proof -
  have h: "Response 503 None = NetworkError
      \<or> (\<exists>status json. Response 503 None = Response status json \<and> \<not> ok status)"
    by (simp add: ok_def)
  have w: "isSafeInteger 10" and ht: "isSafeInteger 6"
    and sw: "isSafeInteger (2 + 10)" and sh: "isSafeInteger (4 + 6)"
    by (simp_all add: isSafeInteger_def)
  show ?thesis
    using h w ht sw sh
      getAutoPosition_fallback [OF h w ht sw sh, where r = "constructor True None"
        and elementId = "''chart_1''" and elementType = "''CHART''"]
    by blast
qed

section \<open>Loading the viewer: the three callbacks\<close>

lemma iframe_onload_eq:
  "iframe_onload r =
     Some (resolve (r\<lparr>timeoutArmed := False, isLoaded := True, pendingMessages := [],
                     outbox := outbox r @
                       map (\<lambda>m. postMessage r (resend m)) (pendingMessages r)\<rparr>))"
  by (simp add: iframe_onload_def markReady_eq postMessage_def)

lemma loadPresentation_onload:
  "\<exists>r'. iframe_onload (loadPresentation r viewerUrl) = Some r'
      \<and> loadPromise r' = Resolved \<and> isLoaded r' \<and> pendingMessages r' = []
      \<and> outbox r' = outbox r @ map (\<lambda>m. postMessage r (resend m)) (pendingMessages r)"
  by (simp add: iframe_onload_eq loadPresentation_def resolve_def postMessage_def)

lemma loadPresentation_onerror:
  "loadPromise (iframe_onerror (loadPresentation r viewerUrl)) = Rejected
   \<and> isLoaded (iframe_onerror (loadPresentation r viewerUrl)) = isLoaded r
   \<and> pendingMessages (iframe_onerror (loadPresentation r viewerUrl)) = pendingMessages r
   \<and> outbox (iframe_onerror (loadPresentation r viewerUrl)) = outbox r"
  by (simp add: iframe_onerror_def loadPresentation_def reject_def)

lemma loadPresentation_timeout:
  "timeout_callback (loadPresentation r viewerUrl) =
     r\<lparr>loadPromise := Resolved, timeoutArmed := False, iframeSrc := viewerUrl,
       isLoaded := True\<rparr>"
  by (simp add: timeout_callback_def loadPresentation_def resolve_def)

text \<open>
  Claim C3, evaluated on the timeout path. A command is sent before the viewer is
  loaded and is queued; \<^verbatim>\<open>loadPresentation\<close> is called and the 5000 ms timer fires
  first. The promise is resolved and the renderer counts as loaded, but the queued
  command is still in the queue and nothing was posted; a command sent afterwards
  is posted at once, ahead of the queued one.
\<close>

theorem timeout_resolves_without_flushing:
  "loadPromise (timeout_callback (loadPresentation
       (sendCommand (constructor True None) ''toggleEditMode'' []) ''viewer.html'')) = Resolved
   \<and> isLoaded (timeout_callback (loadPresentation
       (sendCommand (constructor True None) ''toggleEditMode'' []) ''viewer.html''))
   \<and> pendingMessages (timeout_callback (loadPresentation
       (sendCommand (constructor True None) ''toggleEditMode'' []) ''viewer.html'')) =
       [\<lparr>action = ''toggleEditMode'', params = [], source = ''text-labs''\<rparr>]
   \<and> outbox (timeout_callback (loadPresentation
       (sendCommand (constructor True None) ''toggleEditMode'' []) ''viewer.html'')) = []
   \<and> outbox (sendCommand (timeout_callback (loadPresentation
       (sendCommand (constructor True None) ''toggleEditMode'' []) ''viewer.html''))
       ''reloadPresentation'' []) =
       [Posted \<lparr>action = ''reloadPresentation'', params = [], source = ''text-labs''\<rparr>]
   \<and> pendingMessages (sendCommand (timeout_callback (loadPresentation
       (sendCommand (constructor True None) ''toggleEditMode'' []) ''viewer.html''))
       ''reloadPresentation'' []) =
       [\<lparr>action = ''toggleEditMode'', params = [], source = ''text-labs''\<rparr>]"
  by (simp add: loadPresentation_timeout sendCommand_def constructor_def command_def
      postMessage_def)

section \<open>The message listener\<close>

lemma onMessage_total:
  "\<exists>r'. onMessage r data = Some r' \<and> elements r' = elements r \<and> requests r' = requests r"
  by (simp add: onMessage_def markReady_eq split: option.split)

lemma onMessage_other:
  "ev_action d \<noteq> Str ''viewerReady'' \<Longrightarrow> onMessage r (Some d) = Some r"
  by (simp add: onMessage_def)

lemma onMessage_own:
  "ev_source d = Str ''text-labs'' \<Longrightarrow> onMessage r (Some d) = Some r"
  by (simp add: onMessage_def)

lemma onMessage_viewerReady:
  "ev_source d \<noteq> Str ''text-labs'' \<Longrightarrow> ev_action d = Str ''viewerReady'' \<Longrightarrow>
     onMessage r (Some d) =
       Some (r\<lparr>isLoaded := True, pendingMessages := [],
               outbox := outbox r @ map (\<lambda>m. postMessage r (resend m)) (pendingMessages r)\<rparr>)"
  by (simp add: onMessage_def markReady_eq)

text \<open>
  Claim C9 as stated fails: an external \<^verbatim>\<open>viewerReady\<close> message, which the listener
  recognizes, sets the readiness flag and empties the pending queue by posting it.
\<close>

theorem viewerReady_changes_channel_state:
  "\<not> isLoaded (sendCommand (constructor True None) ''toggleEditMode'' [])
   \<and> pendingMessages (sendCommand (constructor True None) ''toggleEditMode'' []) =
       [\<lparr>action = ''toggleEditMode'', params = [], source = ''text-labs''\<rparr>]
   \<and> onMessage (sendCommand (constructor True None) ''toggleEditMode'' [])
       (Some \<lparr>ev_source = Undefined, ev_action = Str ''viewerReady'', ev_success = Undefined,
               ev_elementId = Undefined, ev_error = Undefined, ev_position = Undefined\<rparr>) =
       Some ((constructor True None)
         \<lparr>isLoaded := True, pendingMessages := [],
          outbox := [Posted \<lparr>action = ''toggleEditMode'', params = [],
                             source = ''text-labs''\<rparr>]\<rparr>)"
  by (simp add: onMessage_viewerReady sendCommand_def constructor_def command_def
      postMessage_def resend_def)

text \<open>
  Claim C9, amended. The listener ignores falsy data and every message whose source
  is \<^verbatim>\<open>'text-labs'\<close>; every other message whose action is not \<^verbatim>\<open>viewerReady\<close> leaves the
  renderer as it was; an external \<^verbatim>\<open>viewerReady\<close> message sets the readiness flag and
  posts the pending queue in order, leaving it empty. In every case the listener
  returns and the element list and the requests are unchanged.
\<close>

theorem onMessage_effects:
  "onMessage r None = Some r
   \<and> (ev_source d = Str ''text-labs'' \<longrightarrow> onMessage r (Some d) = Some r)
   \<and> (ev_action d \<noteq> Str ''viewerReady'' \<longrightarrow> onMessage r (Some d) = Some r)
   \<and> (ev_source d \<noteq> Str ''text-labs'' \<and> ev_action d = Str ''viewerReady'' \<longrightarrow>
        onMessage r (Some d) =
          Some (r\<lparr>isLoaded := True, pendingMessages := [],
                  outbox := outbox r @
                    map (\<lambda>m. postMessage r (resend m)) (pendingMessages r)\<rparr>))
   \<and> (\<exists>r'. onMessage r data = Some r' \<and> elements r' = elements r
           \<and> requests r' = requests r)"
  using onMessage_total [of r data] onMessage_other [of d r] onMessage_own [of d r]
    onMessage_viewerReady [of d r]
  by (simp add: onMessage_def)

theorem onMessage_effects_witness:
  "onMessage (sendCommand (constructor True None) ''toggleEditMode'' [])
       (Some \<lparr>ev_source = Str ''text-labs'', ev_action = Str ''viewerReady'',
               ev_success = Undefined, ev_elementId = Undefined, ev_error = Undefined,
               ev_position = Undefined\<rparr>) =
     Some (sendCommand (constructor True None) ''toggleEditMode'' [])
   \<and> onMessage (sendCommand (constructor True None) ''toggleEditMode'' [])
       (Some \<lparr>ev_source = Str ''layout'', ev_action = Str ''insertTextBox'',
               ev_success = Bool True, ev_elementId = Str ''el_1'', ev_error = Undefined,
               ev_position = Undefined\<rparr>) =
     Some (sendCommand (constructor True None) ''toggleEditMode'' [])
   \<and> onMessage (sendCommand (constructor True None) ''toggleEditMode'' [])
       (Some \<lparr>ev_source = Str ''layout'', ev_action = Str ''viewerReady'',
               ev_success = Undefined, ev_elementId = Undefined, ev_error = Undefined,
               ev_position = Undefined\<rparr>) =
     Some ((constructor True None)
         \<lparr>isLoaded := True, pendingMessages := [],
          outbox := [Posted \<lparr>action = ''toggleEditMode'', params = [],
                             source = ''text-labs''\<rparr>]\<rparr>)"
  using
    onMessage_effects [of "sendCommand (constructor True None) ''toggleEditMode'' []"
      "\<lparr>ev_source = Str ''text-labs'', ev_action = Str ''viewerReady'',
        ev_success = Undefined, ev_elementId = Undefined, ev_error = Undefined,
        ev_position = Undefined\<rparr>"]
    onMessage_effects [of "sendCommand (constructor True None) ''toggleEditMode'' []"
      "\<lparr>ev_source = Str ''layout'', ev_action = Str ''insertTextBox'',
        ev_success = Bool True, ev_elementId = Str ''el_1'', ev_error = Undefined,
        ev_position = Undefined\<rparr>"]
    onMessage_effects [of "sendCommand (constructor True None) ''toggleEditMode'' []"
      "\<lparr>ev_source = Str ''layout'', ev_action = Str ''viewerReady'',
        ev_success = Undefined, ev_elementId = Undefined, ev_error = Undefined,
        ev_position = Undefined\<rparr>"]
  by (simp add: sendCommand_def constructor_def command_def postMessage_def resend_def)

section \<open>The insert commands\<close>

lemma getAutoPosition_frame [simp]:
  "isLoaded (snd (getAutoPosition r i t w ht response)) = isLoaded r"
  "outbox (snd (getAutoPosition r i t w ht response)) = outbox r"
  "pendingMessages (snd (getAutoPosition r i t w ht response)) = pendingMessages r"
  "contentWindow (snd (getAutoPosition r i t w ht response)) = contentWindow r"
  "elements (snd (getAutoPosition r i t w ht response)) = elements r"
  by (simp_all add: getAutoPosition_def Let_def split: fetch_result.split option.split)

lemma sent_track_sendCommand:
  assumes "isLoaded r1 = isLoaded r" "outbox r1 = outbox r"
    "pendingMessages r1 = pendingMessages r" "contentWindow r1 = contentWindow r"
  shows "sent r (track (sendCommand r1 a p) e) [command a p]"
  using assms by (simp add: sent_def track_def sendCommand_def Let_def postMessage_def)

lemma sent_track_sendCommand_twice:
  assumes "isLoaded r1 = isLoaded r" "outbox r1 = outbox r"
    "pendingMessages r1 = pendingMessages r" "contentWindow r1 = contentWindow r"
  shows "sent r (track (sendCommand (sendCommand r1 a p) b q) e) [command a p, command b q]"
  using assms by (simp add: sent_def track_def sendCommand_def Let_def postMessage_def)

lemma insertElement_command:
  "\<exists>ps. sent r (snd (insertElement r h pos opts now response)) [command ''insertTextBox'' ps]
      \<and> map_of ps ''skipAutoSize'' = Some (Bool True)
      \<and> map_of ps ''draggable'' = Some (Bool True)
      \<and> map_of ps ''resizable'' = Some (Bool True)"
  unfolding insertElement_def Let_def
  by (auto simp: split_beta intro!: sent_track_sendCommand exI)

lemma insertImage_command:
  "\<exists>ps. sent r (snd (insertImage r h pos elementId opts now response))
        [command ''insertImage'' ps]
      \<and> map_of ps ''skipAutoSize'' = Some (Bool True)
      \<and> map_of ps ''draggable'' = Some (Bool True)
      \<and> map_of ps ''resizable'' = Some (Bool True)"
  unfolding insertImage_def Let_def
  by (auto simp: split_beta intro!: sent_track_sendCommand exI)

lemma insertChart_command:
  "\<exists>ps. sent r (snd (insertChart parseFromString r h pos elementId opts now response))
        [command ''insertChart'' ps]
      \<and> map_of ps ''skipAutoSize'' = None
      \<and> map_of ps ''draggable'' = Some (Bool True)
      \<and> map_of ps ''resizable'' = Some (Bool True)"
  unfolding insertChart_def Let_def
  by (auto simp: split_beta intro!: sent_track_sendCommand exI)

lemma insertDiagram_command:
  "\<exists>ps. sent r (snd (insertDiagram parseFromString r h pos elementId opts now response))
        [command ''insertDiagram'' ps, command ''reloadPresentation'' []]
      \<and> map_of ps ''skipAutoSize'' = None
      \<and> map_of ps ''draggable'' = Some (Bool True)
      \<and> map_of ps ''resizable'' = Some (Bool True)"
  unfolding insertDiagram_def Let_def
  by (auto simp: split_beta intro!: sent_track_sendCommand_twice exI)

lemma insertElement_rev0_command:
  "\<exists>ps. sent r (snd (insertElement_rev0 r h pos now)) [command ''insertTextBox'' ps]
      \<and> map_of ps ''skipAutoSize'' = Some (Bool (pos \<noteq> None))
      \<and> map_of ps ''draggable'' = Some (Bool True)
      \<and> map_of ps ''resizable'' = Some (Bool True)"
  unfolding insertElement_rev0_def Let_def
  by (auto simp: split_beta intro!: sent_track_sendCommand exI)

text \<open>
  Claim C4 as stated fails: \<^verbatim>\<open>insertElement\<close> called with no position and without
  auto-positioning uses the default position \<open>4/18\<close>, \<open>2/32\<close>, asks the position
  service nothing, and still queues a command with \<^verbatim>\<open>skipAutoSize: true\<close>.
\<close>

theorem insertElement_default_position_skips_autosize:
  "pendingMessages (snd (insertElement (constructor True None) ''<p>Hello</p>'' None
      \<lparr>opt_elementId = Some ''el_1'', opt_useAutoPosition = False, opt_positionWidth = None,
        opt_positionHeight = None, opt_elementType = None, opt_diagramType = None\<rparr>
      0 NetworkError)) =
     [\<lparr>action = ''insertTextBox'',
       params = [(''elementId'', Str ''el_1''), (''slideIndex'', Num 0),
                 (''content'', Str ''<p>Hello</p>''), (''gridRow'', Str ''4/18''),
                 (''gridColumn'', Str ''2/32''), (''positionWidth'', Undefined),
                 (''positionHeight'', Undefined), (''skipAutoSize'', Bool True),
                 (''draggable'', Bool True), (''resizable'', Bool True)],
       source = ''text-labs''\<rparr>]
   \<and> map position (elements (snd (insertElement (constructor True None) ''<p>Hello</p>'' None
      \<lparr>opt_elementId = Some ''el_1'', opt_useAutoPosition = False, opt_positionWidth = None,
        opt_positionHeight = None, opt_elementType = None, opt_diagramType = None\<rparr>
      0 NetworkError))) =
     [\<lparr>gridRow = Some ''4/18'', gridColumn = Some ''2/32'', grid_row = None,
       grid_column = None\<rparr>]
   \<and> requests (snd (insertElement (constructor True None) ''<p>Hello</p>'' None
      \<lparr>opt_elementId = Some ''el_1'', opt_useAutoPosition = False, opt_positionWidth = None,
        opt_positionHeight = None, opt_elementType = None, opt_diagramType = None\<rparr>
      0 NetworkError)) = []"
  by (simp add: insertElement_def constructor_def sendCommand_def command_def track_def
      or_string_def js_string_def js_number_def Let_def)

text \<open>
  Claim C4, amended. Every insert method hands its insert command to the channel
  with \<^verbatim>\<open>draggable\<close> and \<^verbatim>\<open>resizable\<close> true. The \<^verbatim>\<open>insertTextBox\<close> and \<^verbatim>\<open>insertImage\<close>
  commands always carry \<^verbatim>\<open>skipAutoSize: true\<close>, however the position was found; the
  \<^verbatim>\<open>insertChart\<close> and \<^verbatim>\<open>insertDiagram\<close> commands have no \<^verbatim>\<open>skipAutoSize\<close> property
  (and \<^verbatim>\<open>insertDiagram\<close> sends \<^verbatim>\<open>reloadPresentation\<close> after its command). In the first
  revision of \<^verbatim>\<open>insertElement\<close>, \<^verbatim>\<open>skipAutoSize\<close> is true exactly when a position was
  passed.
\<close>

theorem insert_commands_flags:
  "(\<exists>ps. sent r (snd (insertElement r h pos opts now response)) [command ''insertTextBox'' ps]
      \<and> map_of ps ''skipAutoSize'' = Some (Bool True)
      \<and> map_of ps ''draggable'' = Some (Bool True)
      \<and> map_of ps ''resizable'' = Some (Bool True))
   \<and> (\<exists>ps. sent r (snd (insertImage r h pos elementId opts now response))
        [command ''insertImage'' ps]
      \<and> map_of ps ''skipAutoSize'' = Some (Bool True)
      \<and> map_of ps ''draggable'' = Some (Bool True)
      \<and> map_of ps ''resizable'' = Some (Bool True))
   \<and> (\<exists>ps. sent r (snd (insertChart parseFromString r h pos elementId opts now response))
        [command ''insertChart'' ps]
      \<and> map_of ps ''skipAutoSize'' = None
      \<and> map_of ps ''draggable'' = Some (Bool True)
      \<and> map_of ps ''resizable'' = Some (Bool True))
   \<and> (\<exists>ps. sent r (snd (insertDiagram parseFromString r h pos elementId opts now response))
        [command ''insertDiagram'' ps, command ''reloadPresentation'' []]
      \<and> map_of ps ''skipAutoSize'' = None
      \<and> map_of ps ''draggable'' = Some (Bool True)
      \<and> map_of ps ''resizable'' = Some (Bool True))
   \<and> (\<exists>ps. sent r (snd (insertElement_rev0 r h pos now)) [command ''insertTextBox'' ps]
      \<and> map_of ps ''skipAutoSize'' = Some (Bool (pos \<noteq> None))
      \<and> map_of ps ''draggable'' = Some (Bool True)
      \<and> map_of ps ''resizable'' = Some (Bool True))"
  by (intro conjI insertElement_command insertImage_command insertChart_command
      insertDiagram_command insertElement_rev0_command)

section \<open>Unwrapping an HTML document\<close>

lemma sublist_separator:
  assumes "sublist t (a @ n # b)" "n \<notin> set t"
  shows "sublist t a \<or> sublist t b"
proof -
  from assms(1) consider "sublist t a" | "sublist t (n # b)"
    | t1 t2 where "t = t1 @ t2" "suffix t1 a" "prefix t2 (n # b)"
    unfolding sublist_append by blast
  then show ?thesis
  proof cases
    case 1
    then show ?thesis by simp
  next
    case 2
    then show ?thesis
      using assms(2) by (auto simp: sublist_Cons_right prefix_Cons)
  next
    case 3
    from 3(3) assms(2) 3(1) have "t2 = []"
      by (cases t2) (auto simp: prefix_Cons)
    with 3 show ?thesis by (auto intro: suffix_imp_sublist)
  qed
qed

lemma includes_separator:
  assumes "includes_str (a @ newline @ b) t" "CHR 0x0A \<notin> set t"
  shows "includes_str a t \<or> includes_str b t"
  using assms sublist_separator [of t a "CHR 0x0A" b]
  by (simp add: includes_str_def newline_def)

lemma includes_join_newline:
  assumes "\<forall>s \<in> set ss. \<not> includes_str s t" "CHR 0x0A \<notin> set t" "t \<noteq> []"
  shows "\<not> includes_str (join newline ss) t"
  using assms(1)
proof (induction ss)
  case Nil
  then show ?case using assms(3) by (simp add: includes_str_def)
next
  case (Cons x ss)
  show ?case
  proof (cases ss)
    case Nil
    then show ?thesis using Cons.prems by simp
  next
    case (Cons y ys)
    have "\<not> includes_str (join newline ss) t"
      using Cons.IH Cons.prems by simp
    moreover have "\<not> includes_str x t"
      using Cons.prems by simp
    ultimately have "\<not> includes_str (x @ newline @ join newline ss) t"
      using includes_separator [OF _ assms(2)] by blast
    then show ?thesis using Cons by simp
  qed
qed

lemma extractBodyContent_document:
  "includes_str h ''<!DOCTYPE'' \<or> includes_str h ''<html'' \<Longrightarrow>
     extractBodyContent parseFromString h =
       join newline (headScripts (parseFromString h)) @ newline @
       bodyInnerHTML (parseFromString h)"
  by (simp add: extractBodyContent_def Let_def)

lemma extractBodyContent_fragment:
  "\<not> includes_str h ''<!DOCTYPE'' \<Longrightarrow> \<not> includes_str h ''<html'' \<Longrightarrow>
     extractBodyContent parseFromString h = h"
  by (simp add: extractBodyContent_def)

lemma extractBodyContent_excludes:
  assumes "includes_str h ''<!DOCTYPE'' \<or> includes_str h ''<html''"
    and "t \<noteq> []" and "CHR 0x0A \<notin> set t"
    and "\<forall>s \<in> set (headScripts (parseFromString h)). \<not> includes_str s t"
    and "\<not> includes_str (bodyInnerHTML (parseFromString h)) t"
  shows "\<not> includes_str (extractBodyContent parseFromString h) t"
proof -
  have "\<not> includes_str (join newline (headScripts (parseFromString h))) t"
    using assms(4,3,2) by (rule includes_join_newline)
  with assms(5) have "\<not> includes_str (join newline (headScripts (parseFromString h)) @ newline @
      bodyInnerHTML (parseFromString h)) t"
    using includes_separator [OF _ assms(3)] by blast
  then show ?thesis
    by (simp add: extractBodyContent_document [OF assms(1)])
qed

text \<open>
  Claim C5 as stated fails: the result is not the script tags followed at once by
  the body markup. For a document with two head scripts the method puts a newline
  between the two script tags and another between the last script tag and the body
  markup.
\<close>

theorem extractBodyContent_inserts_newlines:
  "extractBodyContent
     (\<lambda>text. \<lparr>headScripts = [''<script>a()</script>'', ''<script>b()</script>''],
              bodyInnerHTML = ''<p>M</p>''\<rparr>)
     ''<!DOCTYPE html><html><head><script>a()</script><script>b()</script></head><body><p>M</p></body></html>''
   = ''<script>a()</script>'' @ [CHR 0x0A] @ ''<script>b()</script>'' @ [CHR 0x0A] @ ''<p>M</p>''
   \<and> extractBodyContent
     (\<lambda>text. \<lparr>headScripts = [''<script>a()</script>'', ''<script>b()</script>''],
              bodyInnerHTML = ''<p>M</p>''\<rparr>)
     ''<!DOCTYPE html><html><head><script>a()</script><script>b()</script></head><body><p>M</p></body></html>''
   \<noteq> ''<script>a()</script>'' @ ''<script>b()</script>'' @ ''<p>M</p>''"
  by (simp add: extractBodyContent_def includes_str_def newline_def Let_def)

text \<open>
  Claim C5, amended. For a text that contains \<^verbatim>\<open><!DOCTYPE\<close> or \<^verbatim>\<open><html\<close> the method
  returns the head's script tags in document order, joined by newlines, then a
  newline, then the body's inner markup; with two scripts this is the first, a
  newline, the second, a newline, the markup. The result holds nothing else, so a
  wrapper tag (any text without a newline) that occurs in no script tag and not in
  the body markup does not occur in the result. A text with neither marker is
  returned unchanged.
\<close>

theorem extractBodyContent_shape:
  "(includes_str h ''<!DOCTYPE'' \<or> includes_str h ''<html'' \<longrightarrow>
      extractBodyContent parseFromString h =
        join newline (headScripts (parseFromString h)) @ newline @
        bodyInnerHTML (parseFromString h)
      \<and> (headScripts (parseFromString h) = [s1, s2] \<longrightarrow>
           extractBodyContent parseFromString h =
             s1 @ newline @ s2 @ newline @ bodyInnerHTML (parseFromString h))
      \<and> (t \<noteq> [] \<and> CHR 0x0A \<notin> set t
           \<and> (\<forall>s \<in> set (headScripts (parseFromString h)). \<not> includes_str s t)
           \<and> \<not> includes_str (bodyInnerHTML (parseFromString h)) t \<longrightarrow>
           \<not> includes_str (extractBodyContent parseFromString h) t))
   \<and> (\<not> includes_str h ''<!DOCTYPE'' \<and> \<not> includes_str h ''<html'' \<longrightarrow>
        extractBodyContent parseFromString h = h)"
proof (intro conjI impI)
  assume doc: "includes_str h ''<!DOCTYPE'' \<or> includes_str h ''<html''"
  then show eq: "extractBodyContent parseFromString h =
      join newline (headScripts (parseFromString h)) @ newline @
      bodyInnerHTML (parseFromString h)"
    by (rule extractBodyContent_document)
  show "extractBodyContent parseFromString h =
      s1 @ newline @ s2 @ newline @ bodyInnerHTML (parseFromString h)"
    if "headScripts (parseFromString h) = [s1, s2]"
    using that by (simp add: eq)
  show "\<not> includes_str (extractBodyContent parseFromString h) t"
    if "t \<noteq> [] \<and> CHR 0x0A \<notin> set t
         \<and> (\<forall>s \<in> set (headScripts (parseFromString h)). \<not> includes_str s t)
         \<and> \<not> includes_str (bodyInnerHTML (parseFromString h)) t"
    using that doc extractBodyContent_excludes [of h t parseFromString] by blast
next
  assume "\<not> includes_str h ''<!DOCTYPE'' \<and> \<not> includes_str h ''<html''"
  then show "extractBodyContent parseFromString h = h"
    by (simp add: extractBodyContent_fragment)
qed

theorem extractBodyContent_shape_witness:
  "includes_str
     ''<!DOCTYPE html><html><head><script>a()</script><script>b()</script></head><body><p>M</p></body></html>''
     ''<!DOCTYPE''
   \<and> extractBodyContent
     (\<lambda>text. \<lparr>headScripts = [''<script>a()</script>'', ''<script>b()</script>''],
              bodyInnerHTML = ''<p>M</p>''\<rparr>)
     ''<!DOCTYPE html><html><head><script>a()</script><script>b()</script></head><body><p>M</p></body></html>''
     = ''<script>a()</script>'' @ newline @ ''<script>b()</script>'' @ newline @ ''<p>M</p>''
   \<and> \<not> includes_str (extractBodyContent
     (\<lambda>text. \<lparr>headScripts = [''<script>a()</script>'', ''<script>b()</script>''],
              bodyInnerHTML = ''<p>M</p>''\<rparr>)
     ''<!DOCTYPE html><html><head><script>a()</script><script>b()</script></head><body><p>M</p></body></html>'')
     ''<body''
   \<and> \<not> includes_str ''<div><p>M</p></div>'' ''<!DOCTYPE''
   \<and> \<not> includes_str ''<div><p>M</p></div>'' ''<html''
   \<and> extractBodyContent
     (\<lambda>text. \<lparr>headScripts = [], bodyInnerHTML = ''<div><p>M</p></div>''\<rparr>)
     ''<div><p>M</p></div>'' = ''<div><p>M</p></div>''"
proof -
  let ?doc = "''<!DOCTYPE html><html><head><script>a()</script><script>b()</script></head><body><p>M</p></body></html>''"
  let ?parse = "\<lambda>text :: string. \<lparr>headScripts = [''<script>a()</script>'', ''<script>b()</script>''],
              bodyInnerHTML = ''<p>M</p>''\<rparr>"
  let ?parse2 = "\<lambda>text :: string. \<lparr>headScripts = [], bodyInnerHTML = ''<div><p>M</p></div>''\<rparr>"
  have d: "includes_str ?doc ''<!DOCTYPE''"
    by (simp add: includes_str_def)
  have t: "''<body'' \<noteq> [] \<and> CHR 0x0A \<notin> set ''<body''
      \<and> (\<forall>s \<in> set (headScripts (?parse ?doc)). \<not> includes_str s ''<body'')
      \<and> \<not> includes_str (bodyInnerHTML (?parse ?doc)) ''<body''"
    by (simp add: includes_str_def sublist_code)
  have f: "\<not> includes_str ''<div><p>M</p></div>'' ''<!DOCTYPE''
      \<and> \<not> includes_str ''<div><p>M</p></div>'' ''<html''"
    by (simp add: includes_str_def sublist_code)
  have hs: "headScripts (?parse ?doc) = [''<script>a()</script>'', ''<script>b()</script>'']"
    by simp
  note doc = extractBodyContent_shape [of ?doc ?parse "''<script>a()</script>''"
        "''<script>b()</script>''" "''<body''", THEN conjunct1, THEN mp, OF disjI1 [OF d]]
  have e: "extractBodyContent ?parse ?doc =
      ''<script>a()</script>'' @ newline @ ''<script>b()</script>'' @ newline @ ''<p>M</p>''"
    using doc [THEN conjunct2, THEN conjunct1, THEN mp, OF hs] by simp
  note n = doc [THEN conjunct2, THEN conjunct2, THEN mp, OF t]
  have u: "extractBodyContent ?parse2 ''<div><p>M</p></div>'' = ''<div><p>M</p></div>''"
    by (rule extractBodyContent_shape [of "''<div><p>M</p></div>''" ?parse2,
          THEN conjunct2, THEN mp, OF f])
  from d e n f u show ?thesis by blast
qed

end
